theory Spec2Isabelle
  imports Main "HOL-Library.AList"
begin

section \<open>JavaScript values\<close>

text \<open>
  The builder of \<^verbatim>\<open>libs/vue/src/builders/dev-server/builder.ts\<close> reshapes option
  objects. The values it handles are modelled by one datatype. A plain object is an
  association list in insertion order, as \<^verbatim>\<open>Object.keys\<close> enumerates it; the keys of a
  well-formed object are distinct. A key may be present with the value \<^verbatim>\<open>undefined\<close>:
  the builder itself stores \<^verbatim>\<open>options.css = undefined\<close>.

  Functions are opaque. \<open>ProjectFn n\<close> is a function exported by a file of the project
  (the project configuration file, the legacy hook file); \<open>ChainWebpackWrapper\<close> is
  the arrow function that \<^verbatim>\<open>setup\<close> creates for the key \<^verbatim>\<open>chainWebpack\<close>.
\<close>

datatype fn = ProjectFn nat | ChainWebpackWrapper

datatype jval =
    JUndef
  | JNull
  | JBool bool
  | JNum int
  | JStr string
  | JArr "jval list"
  | JObj "(string \<times> jval) list"
  | JFun fn

type_synonym jobj = "(string \<times> jval) list"

text \<open>What a \<^verbatim>\<open>throw\<close> or a rejected promise carries.\<close>

datatype error = TypeError | Raised jval

text \<open>
  A promise as the code awaits it: it resolves, it rejects, or it never settles.
\<close>

datatype 'a promise = Resolved 'a | Rejected error | Pending

text \<open>\<^verbatim>\<open>obj[key]\<close> on an object: \<^verbatim>\<open>undefined\<close> when the key is absent.\<close>

definition lookup :: "jobj \<Rightarrow> string \<Rightarrow> jval" where
  "lookup obj key = (case map_of obj key of None \<Rightarrow> JUndef | Some v \<Rightarrow> v)"

text \<open>
  \<^verbatim>\<open>v.key\<close> on any value: a TypeError on \<^verbatim>\<open>undefined\<close> and \<^verbatim>\<open>null\<close>, the
  property of an object, and \<^verbatim>\<open>undefined\<close> on every other value (none of the keys the
  builder reads is a property of a primitive, an array or a function).
\<close>

definition member :: "jval \<Rightarrow> string \<Rightarrow> error + jval" where
  "member v key =
     (case v of
        JUndef \<Rightarrow> Inl TypeError
      | JNull \<Rightarrow> Inl TypeError
      | JObj obj \<Rightarrow> Inr (lookup obj key)
      | _ \<Rightarrow> Inr JUndef)"

text \<open>\<^verbatim>\<open>v?.key\<close>: \<^verbatim>\<open>undefined\<close> instead of the TypeError.\<close>

definition optMember :: "jval \<Rightarrow> string \<Rightarrow> jval" where
  "optMember v key = (case member v key of Inl _ \<Rightarrow> JUndef | Inr x \<Rightarrow> x)"

text \<open>JavaScript truthiness, and \<^verbatim>\<open>a || b\<close>.\<close>

fun truthy :: "jval \<Rightarrow> bool" where
  "truthy JUndef = False"
| "truthy JNull = False"
| "truthy (JBool b) = b"
| "truthy (JNum n) = (n \<noteq> 0)"
| "truthy (JStr s) = (s \<noteq> [])"
| "truthy (JArr _) = True"
| "truthy (JObj _) = True"
| "truthy (JFun _) = True"

definition jor :: "jval \<Rightarrow> jval \<Rightarrow> jval" where
  "jor a b = (if truthy a then a else b)"

text \<open>
  The number of keys \<^verbatim>\<open>Object.keys(v)\<close> returns: a TypeError on \<^verbatim>\<open>undefined\<close> and
  \<^verbatim>\<open>null\<close>, the own keys of an object, the indices of an array or a string, no key
  on the other values.
\<close>

definition objectKeysLength :: "jval \<Rightarrow> error + nat" where
  "objectKeysLength v =
     (case v of
        JUndef \<Rightarrow> Inl TypeError
      | JNull \<Rightarrow> Inl TypeError
      | JObj obj \<Rightarrow> Inr (length obj)
      | JArr xs \<Rightarrow> Inr (length xs)
      | JStr s \<Rightarrow> Inr (length s)
      | _ \<Rightarrow> Inr 0)"

text \<open>
  \<^verbatim>\<open>{ ...target, ...source }\<close>: the entries of \<open>source\<close> written onto \<open>target\<close>, in
  order; an existing key keeps its place.
\<close>

definition spread :: "jobj \<Rightarrow> jobj \<Rightarrow> jobj" where
  "spread target source = fold (\<lambda>(key, v). AList.update key v) source target"

section \<open>The package merge-options\<close>

text \<open>
  \<^verbatim>\<open>mergeOptions\<close> is the third-party package \<^verbatim>\<open>merge-options\<close>, which the builder
  calls with \<^verbatim>\<open>{ ignoreUndefined: true }\<close>. The definitions follow the package's
  functions \<^verbatim>\<open>merge\<close>, \<^verbatim>\<open>mergeKeys\<close> and its exported function for that
  configuration: an option object is a plain object; a source that is not an option
  object, or that meets a value that is not one, replaces it (its \<^verbatim>\<open>clone\<close> is the same
  value here); two option objects are merged key by key, recursively, and a key whose
  source value is \<^verbatim>\<open>undefined\<close> is skipped.
\<close>

fun isOptionObject :: "jval \<Rightarrow> bool" where
  "isOptionObject (JObj _) = True"
| "isOptionObject _ = False"

fun entries :: "jval \<Rightarrow> jobj" where
  "entries (JObj obj) = obj"
| "entries _ = []"

function merge :: "jval \<Rightarrow> jval \<Rightarrow> jval"
  and mergeKeys :: "jobj \<Rightarrow> jobj \<Rightarrow> jobj" where
  "merge merged source =
     (if \<not> isOptionObject source \<or> \<not> isOptionObject merged then source
      else JObj (mergeKeys (entries merged) (entries source)))"
| "mergeKeys merged [] = merged"
| "mergeKeys merged ((key, v) # rest) =
     (if v = JUndef then mergeKeys merged rest
      else mergeKeys
             (AList.update key
                (case map_of merged key of
                   Some mv \<Rightarrow> merge mv v
                 | None \<Rightarrow> v)
                merged)
             rest)"
  by pat_completeness auto
termination
  by (relation "measure (\<lambda>x. case x of
                   Inl (merged, source) \<Rightarrow> 2 * size source
                 | Inr (merged, source) \<Rightarrow> 2 * size_list (size_prod (\<lambda>_. 0) size) source + 1)")
    (auto elim!: isOptionObject.elims)

declare merge.simps [simp del]

text \<open>
  The exported function: the options are merged from left to right under the key
  \<^verbatim>\<open>_\<close>; an \<^verbatim>\<open>undefined\<close> option is skipped, an option that is not an option object
  throws a TypeError. The result \<^verbatim>\<open>merged._\<close> is an option object.
\<close>

fun mergeOptionsLoop :: "jval \<Rightarrow> jval list \<Rightarrow> error + jval" where
  "mergeOptionsLoop merged [] = Inr merged"
| "mergeOptionsLoop merged (opt # rest) =
     (if opt = JUndef then mergeOptionsLoop merged rest
      else if \<not> isOptionObject opt then Inl TypeError
      else mergeOptionsLoop (merge merged (JObj [(''_'', opt)])) rest)"

definition mergeOptions :: "jval list \<Rightarrow> error + jobj" where
  "mergeOptions opts =
     (case mergeOptionsLoop (JObj [(''_'', JObj [])]) opts of
        Inl e \<Rightarrow> Inl e
      | Inr merged \<Rightarrow> Inr (entries (lookup (entries merged) ''_'')))"

section \<open>The collaborators of the builder\<close>

text \<open>
  Everything \<^verbatim>\<open>runBuilder\<close> calls outside its own file is a field of one record: the
  host's \<^verbatim>\<open>BuilderContext\<close> (\<^verbatim>\<open>getTargetOptions\<close>, \<^verbatim>\<open>getBuilderNameForTarget\<close>,
  \<^verbatim>\<open>validateOptions\<close>), \<^verbatim>\<open>targetFromTargetString\<close>, the helpers of \<^verbatim>\<open>../../utils\<close>
  (\<^verbatim>\<open>getProjectRoot\<close>, \<^verbatim>\<open>getBabelConfig\<close>, \<^verbatim>\<open>resolveVueConfig\<close>,
  \<^verbatim>\<open>checkUnsupportedConfig\<close>), \<^verbatim>\<open>resolvePkg(context.workspaceRoot)\<close> and the delegate,
  \<^verbatim>\<open>new Service(...).run(...)\<close>. \<open>configureWebpackFile\<close> is the function exported
  by the file \<^verbatim>\<open>configure-webpack.js\<close> of a project root, \<open>None\<close> when the file is
  absent.
\<close>

record serviceCall =
  serviceContext :: string
  pkg :: jval
  serviceInlineOptions :: jobj
  command :: string
  args :: jobj
  rawArgv :: "string list"

record world =
  targetFromTargetString :: "jval \<Rightarrow> error + jval"
  getTargetOptions :: "jval \<Rightarrow> jobj promise"
  getBuilderNameForTarget :: "jval \<Rightarrow> jval promise"
  validateOptions :: "jobj \<Rightarrow> jval \<Rightarrow> jobj promise"
  getProjectRoot :: "string promise"
  getBabelConfig :: "string \<Rightarrow> jval"
  resolveVueConfig :: "string \<Rightarrow> jval"
  configureWebpackFile :: "string \<Rightarrow> fn option"
  checkUnsupportedConfig :: "string \<Rightarrow> error option"
  resolvePkg :: jval
  serviceRun :: "serviceCall \<Rightarrow> jval promise"

text \<open>
  Modelled from the spec: \<^verbatim>\<open>resolveConfigureWebpack\<close> is defined in \<^verbatim>\<open>../../utils\<close>,
  which is not among the sources. It yields the function of the legacy per-project
  webpack-config hook file when that file is present in the project root, and
  \<^verbatim>\<open>undefined\<close> otherwise.
\<close>

definition resolveConfigureWebpack :: "world \<Rightarrow> string \<Rightarrow> jval" where
  "resolveConfigureWebpack w root =
     (case configureWebpackFile w root of None \<Rightarrow> JUndef | Some f \<Rightarrow> JFun f)"

text \<open>
  An \<^verbatim>\<open>async\<close> function threads the logger: it takes the warnings logged so far and
  returns its promise with the warnings logged when it stops. \<open>await\<close> continues with
  the value of a resolved promise, rejects with the reason of a rejected one, and stays
  pending on a promise that never settles.
\<close>

type_synonym 'a async = "string list \<Rightarrow> 'a promise \<times> string list"

definition await :: "'a promise \<Rightarrow> ('a \<Rightarrow> 'b async) \<Rightarrow> 'b async" where
  "await p k log =
     (case p of
        Resolved x \<Rightarrow> k x log
      | Rejected e \<Rightarrow> (Rejected e, log)
      | Pending \<Rightarrow> (Pending, log))"

section \<open>The webpack configuration\<close>

text \<open>
  The functions of \<^verbatim>\<open>../../webpack\<close> and the project's own \<^verbatim>\<open>chainWebpack\<close> hook
  mutate the webpack-chain \<^verbatim>\<open>config\<close> they are given; their sources are not part of
  the builder. The configuration is represented by the sequence of operations applied
  to it, each with the arguments the builder passes.
\<close>

datatype webpackOp =
    ModifyIndexHtmlPath jobj
  | ModifyEntryPoint jobj
  | ModifyTsConfigPaths jobj
  | ModifyCachePaths
  | ModifyTypescriptAliases jobj
  | ModifyBabelLoader jval
  | UseVueCliPlugin
  | Call fn

type_synonym webpackConfig = "webpackOp list"

section \<open>The builder\<close>

definition devServerBuilderOverriddenKeys :: "string list" where
  "devServerBuilderOverriddenKeys =
     [''mode'', ''skipPlugins'', ''publicPath'', ''css'', ''stdin'']"

text \<open>
  Lines 53 to 60: the condition reads the sub-options of \<^verbatim>\<open>options.css\<close> from left to
  right, \<^verbatim>\<open>&&\<close> stopping at the first that is not \<^verbatim>\<open>undefined\<close>; when it holds,
  \<^verbatim>\<open>options.css\<close> is overwritten with \<^verbatim>\<open>undefined\<close>.
\<close>

definition cssIsUnset :: "jobj \<Rightarrow> error + bool" where
  "cssIsUnset options =
     (let css = lookup options ''css'' in
      (case member css ''requireModuleExtension'' of
        Inl e \<Rightarrow> Inl e
      | Inr requireModuleExtension \<Rightarrow>
          if requireModuleExtension \<noteq> JUndef then Inr False
          else (case member css ''extract'' of
            Inl e \<Rightarrow> Inl e
          | Inr extract \<Rightarrow>
              if extract \<noteq> JUndef then Inr False
              else (case member css ''sourceMap'' of
                Inl e \<Rightarrow> Inl e
              | Inr sourceMap \<Rightarrow>
                  if sourceMap \<noteq> JUndef then Inr False
                  else (case member css ''loaderOptions'' of
                    Inl e \<Rightarrow> Inl e
                  | Inr loaderOptions \<Rightarrow>
                      (case objectKeysLength loaderOptions of
                         Inl e \<Rightarrow> Inl e
                       | Inr n \<Rightarrow> Inr (n = 0)))))))"

definition normalizeCss :: "jobj \<Rightarrow> error + jobj" where
  "normalizeCss options =
     (case cssIsUnset options of
        Inl e \<Rightarrow> Inl e
      | Inr unset \<Rightarrow>
          Inr (if unset then AList.update ''css'' JUndef options else options))"

text \<open>Lines 70 to 76: the whitelisted keys of \<^verbatim>\<open>options\<close> whose value is defined.\<close>

definition overrides :: "jobj \<Rightarrow> jobj" where
  "overrides options =
     foldl (\<lambda>previous key. AList.update key (lookup options key) previous) []
       (filter (\<lambda>key. lookup options key \<noteq> JUndef \<and> key \<in> set devServerBuilderOverriddenKeys)
          (map fst options))"

text \<open>Lines 86 to 96.\<close>

definition defaults :: jobj where
  "defaults =
     [(''publicPath'', JStr ''/''),
      (''transpileDependencies'', JArr []),
      (''css'', JObj [(''requireModuleExtension'', JBool True),
                      (''extract'', JBool False),
                      (''sourceMap'', JBool False),
                      (''loaderOptions'', JObj [])]),
      (''devServer'', JObj [])]"

text \<open>Lines 102 to 133: the third argument of the \<^verbatim>\<open>mergeOptions\<close> call.\<close>

definition explicitOptions :: "jobj \<Rightarrow> jobj \<Rightarrow> jobj" where
  "explicitOptions browserOptions options =
     [(''chainWebpack'', JFun ChainWebpackWrapper),
      (''publicPath'', lookup browserOptions ''publicPath''),
      (''filenameHashing'', lookup browserOptions ''filenameHashing''),
      (''css'', lookup browserOptions ''css''),
      (''devServer'', lookup options ''devServer''),
      (''transpileDependencies'', lookup options ''transpileDependencies'')]"

text \<open>
  Lines 103 to 127: the body of the arrow function \<open>ChainWebpackWrapper\<close>, with the
  variables it closes over as arguments. Calling a value that is not a function is a
  TypeError.
\<close>

definition chainWebpack ::
  "jobj \<Rightarrow> jval \<Rightarrow> jobj \<Rightarrow> jval \<Rightarrow> webpackConfig \<Rightarrow> error + webpackConfig" where
  "chainWebpack browserOptions babelConfig options vueConfig config0 =
     (let config = config0 @ [ModifyIndexHtmlPath browserOptions];
          config = config @ [ModifyEntryPoint browserOptions];
          config = config @ [ModifyTsConfigPaths browserOptions];
          config = config @ [ModifyCachePaths];
          config = config @ [ModifyTypescriptAliases browserOptions];
          config = (if truthy babelConfig then config @ [ModifyBabelLoader babelConfig]
                    else config);
          config = (if \<not> truthy (lookup options ''watch'') then config @ [UseVueCliPlugin]
                    else config)
      in (case member vueConfig ''chainWebpack'' of
            Inl e \<Rightarrow> Inl e
          | Inr hook \<Rightarrow>
              if \<not> truthy hook then Inr config
              else (case hook of
                      JFun f \<Rightarrow> Inr (config @ [Call f])
                    | _ \<Rightarrow> Inl TypeError)))"

definition deprecation :: string where
  \<open>deprecation = ''"configure-webpack.js" has been deprecated. Please move this function to the "vue-nx.config.js" file.''\<close>

record setupResult =
  projectRoot :: string
  browserOptions :: jobj
  inlineOptions :: jobj

text \<open>Lines 63 to 148: the function \<^verbatim>\<open>setup\<close>.\<close>

definition setup_async :: "world \<Rightarrow> jobj \<Rightarrow> setupResult async" where
  "setup_async w options log0 =
     (case targetFromTargetString w (lookup options ''browserTarget'') of
        Inl e \<Rightarrow> (Rejected e, log0)
      | Inr browserTarget \<Rightarrow>
          await (getTargetOptions w browserTarget) (\<lambda>rawBrowserOptions.
          await (getBuilderNameForTarget w browserTarget) (\<lambda>browserName.
          await (validateOptions w (spread rawBrowserOptions (overrides options)) browserName)
            (\<lambda>validated.
          await (getProjectRoot w) (\<lambda>root log.
            let vueConfig = jor (resolveVueConfig w root) (JObj [])
            in (case mergeOptions
                       [JObj defaults, vueConfig, JObj (explicitOptions validated options)] of
                  Inl e \<Rightarrow> (Rejected e, log)
                | Inr merged \<Rightarrow>
                    let configureWebpack = resolveConfigureWebpack w root
                    in if truthy configureWebpack
                       then (Resolved \<lparr>projectRoot = root, browserOptions = validated,
                               inlineOptions =
                                 AList.update ''configureWebpack'' configureWebpack merged\<rparr>,
                             log @ [deprecation])
                       else (Resolved \<lparr>projectRoot = root, browserOptions = validated,
                               inlineOptions = merged\<rparr>,
                             log)))))) log0)"

text \<open>
  Calling a function of the inline options on a webpack configuration, as the delegate
  does with \<^verbatim>\<open>chainWebpack\<close>. The wrapper runs its body with the variables of the
  invocation of \<^verbatim>\<open>setup\<close> that created it: \<^verbatim>\<open>browserOptions\<close>, \<^verbatim>\<open>babelConfig\<close>,
  \<^verbatim>\<open>options\<close> and \<^verbatim>\<open>vueConfig\<close>. A function of the project is one opaque operation.
\<close>

definition applyFn ::
  "world \<Rightarrow> jobj \<Rightarrow> setupResult \<Rightarrow> fn \<Rightarrow> webpackConfig \<Rightarrow> error + webpackConfig" where
  "applyFn w options r f config =
     (case f of
        ChainWebpackWrapper \<Rightarrow>
          chainWebpack (browserOptions r) (getBabelConfig w (projectRoot r)) options
            (jor (resolveVueConfig w (projectRoot r)) (JObj [])) config
      | ProjectFn n \<Rightarrow> Inr (config @ [Call (ProjectFn n)]))"

text \<open>Lines 178 to 188: the arguments of the \<^verbatim>\<open>serve\<close> command.\<close>

definition serveArgs :: "jobj \<Rightarrow> jobj \<Rightarrow> jobj \<Rightarrow> jobj" where
  "serveArgs options validated inline =
     [(''open'', jor (lookup options ''open'') (optMember (lookup inline ''devServer'') ''open'')),
      (''copy'', lookup options ''copy''),
      (''stdin'', lookup options ''stdin''),
      (''mode'', lookup validated ''mode''),
      (''host'', jor (lookup options ''host'') (optMember (lookup inline ''devServer'') ''host'')),
      (''port'', jor (lookup options ''port'') (optMember (lookup inline ''devServer'') ''port'')),
      (''https'',
         jor (lookup options ''https'') (optMember (lookup inline ''devServer'') ''https'')),
      (''public'',
         jor (lookup options ''public'') (optMember (lookup inline ''devServer'') ''public'')),
      (''skip-plugins'', lookup validated ''skipPlugins'')]"

text \<open>
  What one invocation produces, for one subscription of the returned stream (the host
  subscribes once): the notifications of the stream in order, the warnings logged, and
  the calls of the delegate. The stream never completes after a value: the code calls
  \<^verbatim>\<open>obs.next\<close> and never \<^verbatim>\<open>obs.complete\<close>.
\<close>

datatype notification = ObsNext jval | ObsError error

record outcome =
  stream :: "notification list"
  warnings :: "string list"
  calls :: "serviceCall list"

text \<open>
  Lines 44 to 197. \<open>Inl\<close> is an exception thrown by \<^verbatim>\<open>runBuilder\<close> itself, before it
  returns a stream. A rejection of \<^verbatim>\<open>setup\<close> and an exception in the function given to
  \<^verbatim>\<open>switchMap\<close> are errors of the stream; \<^verbatim>\<open>map\<close> destructures the value the delegate
  resolved with, which is a TypeError on \<^verbatim>\<open>undefined\<close> and \<^verbatim>\<open>null\<close>. The call of
  \<^verbatim>\<open>modifyChalkOutput\<close> only rewrites console output and is left out.
\<close>

definition runBuilder :: "world \<Rightarrow> jobj \<Rightarrow> error + outcome" where
  "runBuilder w options0 =
     (case normalizeCss options0 of
        Inl e \<Rightarrow> Inl e
      | Inr options \<Rightarrow>
          Inr (case setup_async w options [] of
            (Pending, log) \<Rightarrow> \<lparr>stream = [], warnings = log, calls = []\<rparr>
          | (Rejected e, log) \<Rightarrow> \<lparr>stream = [ObsError e], warnings = log, calls = []\<rparr>
          | (Resolved r, log) \<Rightarrow>
              (case checkUnsupportedConfig w (projectRoot r) of
                 Some e \<Rightarrow> \<lparr>stream = [ObsError e], warnings = log, calls = []\<rparr>
               | None \<Rightarrow>
                   let call = \<lparr>serviceContext = projectRoot r,
                               pkg = resolvePkg w,
                               serviceInlineOptions = inlineOptions r,
                               command = ''serve'',
                               args = serveArgs options (browserOptions r) (inlineOptions r),
                               rawArgv = [''serve'']\<rparr>
                   in (case serviceRun w call of
                         Pending \<Rightarrow> \<lparr>stream = [], warnings = log, calls = [call]\<rparr>
                       | Rejected err \<Rightarrow>
                           \<lparr>stream = [ObsError err], warnings = log, calls = [call]\<rparr>
                       | Resolved success \<Rightarrow>
                           (case member success ''url'' of
                              Inl e \<Rightarrow>
                                \<lparr>stream = [ObsError e], warnings = log, calls = [call]\<rparr>
                            | Inr url \<Rightarrow>
                                \<lparr>stream = [ObsNext (JObj [(''success'', JBool True),
                                                           (''baseUrl'', url)])],
                                 warnings = log, calls = [call]\<rparr>)))))"

section \<open>An example project\<close>

text \<open>
  A project whose configuration file sets a dev-server port and a \<^verbatim>\<open>chainWebpack\<close>
  hook and which still has the legacy hook file; the host accepts the options of the
  browser target as they are, and the delegate resolves with the URL it serves.
\<close>

definition exBrowserTargetOptions :: jobj where
  "exBrowserTargetOptions =
     [(''mode'', JStr ''development''),
      (''index'', JStr ''public/index.html''),
      (''css'', JObj [(''extract'', JBool True), (''loaderOptions'', JObj [])])]"

definition exVueConfig :: jobj where
  "exVueConfig =
     [(''devServer'', JObj [(''port'', JNum 8080), (''host'', JStr ''0.0.0.0'')]),
      (''chainWebpack'', JFun (ProjectFn 1))]"

definition exWorld :: world where
  "exWorld =
     \<lparr>targetFromTargetString = (\<lambda>t. Inr t),
      getTargetOptions = (\<lambda>t. Resolved exBrowserTargetOptions),
      getBuilderNameForTarget = (\<lambda>t. Resolved (JStr ''@nx-plus/vue:browser'')),
      validateOptions = (\<lambda>opts name. Resolved opts),
      getProjectRoot = Resolved ''apps/demo'',
      getBabelConfig = (\<lambda>root. JStr ''apps/demo/babel.config.js''),
      resolveVueConfig = (\<lambda>root. JObj exVueConfig),
      configureWebpackFile = (\<lambda>root. Some (ProjectFn 2)),
      checkUnsupportedConfig = (\<lambda>root. None),
      resolvePkg = JObj [],
      serviceRun = (\<lambda>c. Resolved (JObj [(''server'', JObj []),
                                           (''url'', JStr ''http://localhost:8080/'')]))\<rparr>"

text \<open>The same project with a delegate that fails.\<close>

definition exFailingWorld :: world where
  "exFailingWorld = exWorld\<lparr>serviceRun := (\<lambda>c. Rejected (Raised (JStr ''EADDRINUSE'')))\<rparr>"

text \<open>
  Invocation options with every CSS sub-option unset and falsy \<^verbatim>\<open>port\<close>, \<^verbatim>\<open>host\<close>,
  \<^verbatim>\<open>https\<close> and \<^verbatim>\<open>open\<close>; the same with a CSS sub-option set; and options whose
  \<^verbatim>\<open>css\<close> has a sub-option set and no \<^verbatim>\<open>loaderOptions\<close>.
\<close>

definition exOptions :: jobj where
  "exOptions =
     [(''browserTarget'', JStr ''demo:build''),
      (''open'', JBool False),
      (''host'', JStr []),
      (''port'', JNum 0),
      (''https'', JBool False),
      (''public'', JStr ''demo.example.org''),
      (''watch'', JBool True),
      (''mode'', JStr ''production''),
      (''css'', JObj [(''loaderOptions'', JObj [])]),
      (''devServer'', JObj [(''https'', JBool True)]),
      (''transpileDependencies'', JArr [])]"

definition exOptionsSourceMap :: jobj where
  "exOptionsSourceMap =
     AList.update ''css'' (JObj [(''sourceMap'', JBool True), (''loaderOptions'', JObj [])])
       exOptions"

definition exOptionsNoLoaderOptions :: jobj where
  "exOptionsNoLoaderOptions = AList.update ''css'' (JObj [(''extract'', JBool True)]) exOptions"

text \<open>
  What the first invocation computes on the way: the options after lines 53 to 60, the
  validated browser options, the inline options, the result of \<^verbatim>\<open>setup\<close>, the call
  of the delegate and the outcome.
\<close>

definition exNormalized :: jobj where
  "exNormalized = AList.update ''css'' JUndef exOptions"

definition exValidated :: jobj where
  "exValidated =
     [(''mode'', JStr ''production''),
      (''index'', JStr ''public/index.html''),
      (''css'', JObj [(''extract'', JBool True), (''loaderOptions'', JObj [])])]"

definition exInlineOptions :: jobj where
  "exInlineOptions =
     [(''publicPath'', JStr ''/''),
      (''transpileDependencies'', JArr []),
      (''css'', JObj [(''requireModuleExtension'', JBool True),
                      (''extract'', JBool True),
                      (''sourceMap'', JBool False),
                      (''loaderOptions'', JObj [])]),
      (''devServer'', JObj [(''port'', JNum 8080),
                            (''host'', JStr ''0.0.0.0''),
                            (''https'', JBool True)]),
      (''chainWebpack'', JFun ChainWebpackWrapper),
      (''configureWebpack'', JFun (ProjectFn 2))]"

definition exSetupResult :: setupResult where
  "exSetupResult =
     \<lparr>projectRoot = ''apps/demo'', browserOptions = exValidated,
      inlineOptions = exInlineOptions\<rparr>"

definition exCall :: serviceCall where
  "exCall =
     \<lparr>serviceContext = ''apps/demo'',
      pkg = JObj [],
      serviceInlineOptions = exInlineOptions,
      command = ''serve'',
      args = [(''open'', JUndef),
              (''copy'', JUndef),
              (''stdin'', JUndef),
              (''mode'', JStr ''production''),
              (''host'', JStr ''0.0.0.0''),
              (''port'', JNum 8080),
              (''https'', JBool True),
              (''public'', JStr ''demo.example.org''),
              (''skip-plugins'', JUndef)],
      rawArgv = [''serve'']\<rparr>"

definition exOutcome :: outcome where
  "exOutcome =
     \<lparr>stream = [ObsNext (JObj [(''success'', JBool True),
                                (''baseUrl'', JStr ''http://localhost:8080/'')])],
      warnings = [deprecation],
      calls = [exCall]\<rparr>"

section \<open>Lemmas about objects and the merge\<close>

lemma lookup_Nil [simp]: "lookup [] key = JUndef"
  by (simp add: lookup_def)

lemma lookup_Cons [simp]:
  "lookup ((k, v) # obj) key = (if key = k then v else lookup obj key)"
  by (simp add: lookup_def)

lemma lookup_update [simp]:
  "lookup (AList.update k v obj) key = (if key = k then v else lookup obj key)"
  by (simp add: lookup_def update_conv')

lemma lookup_absent: "key \<notin> fst ` set obj \<Longrightarrow> lookup obj key = JUndef"
  by (simp add: lookup_def map_of_eq_None_iff [THEN iffD2])

lemma merge_non_object [simp]:
  "\<not> isOptionObject source \<Longrightarrow> merge merged source = source"
  "\<not> isOptionObject merged \<Longrightarrow> merge merged source = source"
  by (simp_all add: merge.simps)

lemma merge_objects [simp]:
  "merge (JObj m) (JObj s) = JObj (mergeKeys m s)"
  by (simp add: merge.simps)


lemma lookup_mergeKeys:
  "distinct (map fst source) \<Longrightarrow>
   lookup (mergeKeys merged source) key =
     (if lookup source key = JUndef then lookup merged key
      else merge (lookup merged key) (lookup source key))"
proof (induction source arbitrary: merged)
  case Nil
  then show ?case by simp
next
  case (Cons p rest)
  obtain k v where p: "p = (k, v)" by (cases p)
  from Cons.prems p have absent: "k \<notin> fst ` set rest" and d: "distinct (map fst rest)"
    by auto
  have IH: "\<And>m. lookup (mergeKeys m rest) key =
     (if lookup rest key = JUndef then lookup m key
      else merge (lookup m key) (lookup rest key))"
    using Cons.IH [OF d] .
  show ?case
  proof (cases "v = JUndef")
    case True
    show ?thesis
    proof (cases "key = k")
      case True
      with \<open>v = JUndef\<close> p absent IH show ?thesis
        by (simp add: lookup_absent)
    next
      case False
      with \<open>v = JUndef\<close> p show ?thesis
        by (simp add: IH)
    qed
  next
    case False
    show ?thesis
    proof (cases "key = k")
      case True
      with \<open>v \<noteq> JUndef\<close> p absent IH show ?thesis
        by (simp add: lookup_absent) (simp add: lookup_def split: option.splits)
    next
      case False
      with \<open>v \<noteq> JUndef\<close> p show ?thesis
        by (simp add: IH)
    qed
  qed
qed


lemma mergeOptions3:
  "mergeOptions [JObj d, JObj v, JObj e] = Inr (mergeKeys (mergeKeys (mergeKeys [] d) v) e)"
  by (simp add: mergeOptions_def)

lemma distinct_explicitOptions: "distinct (map fst (explicitOptions validated options))"
  by (simp add: explicitOptions_def)

lemma mergeKeys_explicit:
  "lookup (mergeKeys merged (explicitOptions validated options)) ''chainWebpack'' =
     JFun ChainWebpackWrapper"
  by (simp only: lookup_mergeKeys [OF distinct_explicitOptions])
     (simp add: explicitOptions_def)

lemma mergeOptions_Inr:
  assumes "mergeOptions [JObj d, v, JObj e] = Inr merged" and "v \<noteq> JUndef"
  shows "\<exists>vc. v = JObj vc \<and> merged = mergeKeys (mergeKeys (mergeKeys [] d) vc) e"
  using assms by (cases v) (simp_all add: mergeOptions_def)

lemma jor_truthy: "jor v (JObj []) \<noteq> JUndef"
  by (cases v) (simp_all add: jor_def)

lemma setup_async_Resolved:
  assumes "setup_async w options log = (Resolved r, log')"
  shows "\<exists>target raw name vueConfig merged.
           targetFromTargetString w (lookup options ''browserTarget'') = Inr target \<and>
           getTargetOptions w target = Resolved raw \<and>
           getBuilderNameForTarget w target = Resolved name \<and>
           validateOptions w (spread raw (overrides options)) name = Resolved (browserOptions r) \<and>
           getProjectRoot w = Resolved (projectRoot r) \<and>
           jor (resolveVueConfig w (projectRoot r)) (JObj []) = JObj vueConfig \<and>
           merged =
             mergeKeys (mergeKeys (mergeKeys [] defaults) vueConfig)
               (explicitOptions (browserOptions r) options) \<and>
           (case configureWebpackFile w (projectRoot r) of
              None \<Rightarrow> inlineOptions r = merged \<and> log' = log
            | Some f \<Rightarrow>
                inlineOptions r = AList.update ''configureWebpack'' (JFun f) merged \<and>
                log' = log @ [deprecation])"
proof -
  from assms obtain target where t: "targetFromTargetString w (lookup options ''browserTarget'') = Inr target"
    by (auto simp: setup_async_def split: sum.splits)
  from assms t obtain raw where raw: "getTargetOptions w target = Resolved raw"
    by (auto simp: setup_async_def await_def split: promise.splits)
  from assms t raw obtain name where name: "getBuilderNameForTarget w target = Resolved name"
    by (auto simp: setup_async_def await_def split: promise.splits)
  from assms t raw name obtain validated where
    v: "validateOptions w (spread raw (overrides options)) name = Resolved validated"
    by (auto simp: setup_async_def await_def split: promise.splits)
  from assms t raw name v obtain root where root: "getProjectRoot w = Resolved root"
    by (auto simp: setup_async_def await_def split: promise.splits)
  from assms t raw name v root obtain merged where
    m: "mergeOptions [JObj defaults, jor (resolveVueConfig w root) (JObj []),
          JObj (explicitOptions validated options)] = Inr merged"
    by (auto simp: setup_async_def await_def Let_def split: sum.splits)
  from mergeOptions_Inr [OF m jor_truthy] obtain vc where
    vc: "jor (resolveVueConfig w root) (JObj []) = JObj vc"
    and merged: "merged = mergeKeys (mergeKeys (mergeKeys [] defaults) vc)
                            (explicitOptions validated options)"
    by blast
  from assms t raw name v root m have
    r: "(case configureWebpackFile w root of
          None \<Rightarrow> r = \<lparr>projectRoot = root, browserOptions = validated, inlineOptions = merged\<rparr>
                    \<and> log' = log
        | Some f \<Rightarrow> r = \<lparr>projectRoot = root, browserOptions = validated,
                          inlineOptions = AList.update ''configureWebpack'' (JFun f) merged\<rparr>
                    \<and> log' = log @ [deprecation])"
    by (auto simp: setup_async_def await_def Let_def resolveConfigureWebpack_def
             split: option.splits)
  from r have sel: "projectRoot r = root" "browserOptions r = validated"
    by (auto split: option.splits)
  from r have io: "(case configureWebpackFile w root of
              None \<Rightarrow> inlineOptions r = merged \<and> log' = log
            | Some f \<Rightarrow>
                inlineOptions r = AList.update ''configureWebpack'' (JFun f) merged \<and>
                log' = log @ [deprecation])"
    by (auto split: option.splits)
  show ?thesis
    using t raw name v root vc merged io sel by auto
qed

lemma lookup_mergeKeys_defaults:
  "lookup (mergeKeys [] defaults) key = lookup defaults key"
proof -
  have "distinct (map fst defaults)" by (simp add: defaults_def)
  then show ?thesis by (simp add: lookup_mergeKeys)
qed

lemma lookup_merged_layers:
  assumes "distinct (map fst vueConfig)"
  shows "lookup (mergeKeys (mergeKeys (mergeKeys [] defaults) vueConfig)
                   (explicitOptions validated options)) key =
         (let d = lookup defaults key;
              v = lookup vueConfig key;
              e = lookup (explicitOptions validated options) key;
              lower = (if v = JUndef then d else merge d v)
          in if e = JUndef then lower else merge lower e)"
  by (simp only: lookup_mergeKeys [OF distinct_explicitOptions] lookup_mergeKeys [OF assms]
        lookup_mergeKeys_defaults Let_def)

section \<open>Lemmas about the overrides\<close>

lemma map_of_foldl_update:
  "map_of (foldl (\<lambda>previous key. AList.update key (f key) previous) acc ks) k =
     (if k \<in> set ks then Some (f k) else map_of acc k)"
  by (induction ks arbitrary: acc) (auto simp: update_conv')

lemma lookup_defined_key:
  assumes "lookup obj key \<noteq> JUndef"
  shows "key \<in> fst ` set obj"
proof -
  from assms obtain v where "map_of obj key = Some v"
    by (cases "map_of obj key") (auto simp: lookup_def)
  then have "(key, v) \<in> set obj" by (rule map_of_SomeD)
  then show ?thesis by force
qed

lemma map_of_overrides:
  "map_of (overrides options) key =
     (if key \<in> set devServerBuilderOverriddenKeys \<and> lookup options key \<noteq> JUndef
      then Some (lookup options key) else None)"
  unfolding overrides_def map_of_foldl_update
  using lookup_defined_key [of options key] by auto

lemma map_of_fold_update:
  "\<forall>(k, v) \<in> set source. v = g k \<Longrightarrow>
   map_of (fold (\<lambda>(key, v). AList.update key v) source target) key =
     (if key \<in> fst ` set source then Some (g key) else map_of target key)"
proof (induction source arbitrary: target)
  case Nil
  then show ?case by simp
next
  case (Cons p source)
  then show ?case
    by (cases p) (auto simp: update_conv')
qed

lemma distinct_overrides: "distinct (map fst (overrides options))"
  unfolding overrides_def
  by (rule rev_induct [of _ "filter _ _"]) (simp_all add: distinct_update)

lemma overrides_entries: "\<forall>(k, v) \<in> set (overrides options). v = lookup options k"
proof -
  have "v = lookup options k" if a: "(k, v) \<in> set (overrides options)" for k v
  proof -
    from a distinct_overrides have "map_of (overrides options) k = Some v" by simp
    then show ?thesis by (simp add: map_of_overrides split: if_splits)
  qed
  then show ?thesis by auto
qed

lemma keys_overrides:
  "fst ` set (overrides options) =
     {key \<in> set devServerBuilderOverriddenKeys. lookup options key \<noteq> JUndef}"
proof -
  have "fst ` set (overrides options) = dom (map_of (overrides options))"
    by (simp add: dom_map_of_conv_image_fst)
  also have "\<dots> = {key \<in> set devServerBuilderOverriddenKeys. lookup options key \<noteq> JUndef}"
    by (auto simp: map_of_overrides dom_def)
  finally show ?thesis .
qed

lemma lookup_spread_overrides:
  "lookup (spread raw (overrides options)) key =
     (if key \<in> set devServerBuilderOverriddenKeys \<and> lookup options key \<noteq> JUndef
      then lookup options key else lookup raw key)"
proof -
  have "map_of (spread raw (overrides options)) key =
     (if key \<in> set devServerBuilderOverriddenKeys \<and> lookup options key \<noteq> JUndef
      then Some (lookup options key) else map_of raw key)"
    unfolding spread_def
    by (simp add: map_of_fold_update [OF overrides_entries] keys_overrides)
  then show ?thesis
    by (simp add: lookup_def [of "spread raw (overrides options)"] lookup_def [of raw])
qed

section \<open>Lemmas about the builder\<close>

lemma normalizeCss_lookup:
  "normalizeCss options = Inr options' \<Longrightarrow> key \<noteq> ''css'' \<Longrightarrow>
   lookup options' key = lookup options key"
  by (auto simp: normalizeCss_def split: sum.splits if_splits)




lemma runBuilder_call:
  assumes "runBuilder w options = Inr out" and "c \<in> set (calls out)"
  obtains options' r log where
    "normalizeCss options = Inr options'"
    "setup_async w options' [] = (Resolved r, log)"
    "calls out = [c]"
    "serviceInlineOptions c = inlineOptions r"
    "args c = serveArgs options' (browserOptions r) (inlineOptions r)"
    "stream out =
       (case serviceRun w c of
          Pending \<Rightarrow> []
        | Rejected err \<Rightarrow> [ObsError err]
        | Resolved success \<Rightarrow>
            (case member success ''url'' of
               Inl e \<Rightarrow> [ObsError e]
             | Inr url \<Rightarrow>
                 [ObsNext (JObj [(''success'', JBool True), (''baseUrl'', url)])]))"
proof -
  from assms obtain options' where n: "normalizeCss options = Inr options'"
    by (auto simp: runBuilder_def split: sum.splits)
  obtain p log where s: "setup_async w options' [] = (p, log)"
    by (cases "setup_async w options' []")
  from assms n s obtain r where p: "p = Resolved r"
    by (cases p) (auto simp: runBuilder_def)
  from assms n s p have u: "checkUnsupportedConfig w (projectRoot r) = None"
    by (cases "checkUnsupportedConfig w (projectRoot r)") (auto simp: runBuilder_def)
  define call where "call =
    \<lparr>serviceContext = projectRoot r, pkg = resolvePkg w,
     serviceInlineOptions = inlineOptions r, command = ''serve'',
     args = serveArgs options' (browserOptions r) (inlineOptions r),
     rawArgv = [''serve'']\<rparr>"
  from assms n s p u have out: "out =
     (case serviceRun w call of
        Pending \<Rightarrow> \<lparr>stream = [], warnings = log, calls = [call]\<rparr>
      | Rejected err \<Rightarrow> \<lparr>stream = [ObsError err], warnings = log, calls = [call]\<rparr>
      | Resolved success \<Rightarrow>
          (case member success ''url'' of
             Inl e \<Rightarrow> \<lparr>stream = [ObsError e], warnings = log, calls = [call]\<rparr>
           | Inr url \<Rightarrow>
               \<lparr>stream = [ObsNext (JObj [(''success'', JBool True), (''baseUrl'', url)])],
                warnings = log, calls = [call]\<rparr>))"
    unfolding call_def by (simp add: runBuilder_def Let_def)
  then have cs: "calls out = [call]"
    by (simp split: promise.splits sum.splits)
  with assms(2) have c: "c = call" by simp
  have st: "stream out =
       (case serviceRun w c of
          Pending \<Rightarrow> []
        | Rejected err \<Rightarrow> [ObsError err]
        | Resolved success \<Rightarrow>
            (case member success ''url'' of
               Inl e \<Rightarrow> [ObsError e]
             | Inr url \<Rightarrow>
                 [ObsNext (JObj [(''success'', JBool True), (''baseUrl'', url)])]))"
    unfolding c out by (simp split: promise.splits sum.splits)
  show thesis
  proof (rule that [OF n])
    show "setup_async w options' [] = (Resolved r, log)" using s p by simp
    show "calls out = [c]" using cs c by simp
    show "serviceInlineOptions c = inlineOptions r" by (simp add: c call_def)
    show "args c = serveArgs options' (browserOptions r) (inlineOptions r)"
      by (simp add: c call_def)
    show "stream out =
       (case serviceRun w c of
          Pending \<Rightarrow> []
        | Rejected err \<Rightarrow> [ObsError err]
        | Resolved success \<Rightarrow>
            (case member success ''url'' of
               Inl e \<Rightarrow> [ObsError e]
             | Inr url \<Rightarrow>
                 [ObsNext (JObj [(''success'', JBool True), (''baseUrl'', url)])]))"
      by (rule st)
  qed
qed

lemma cssIsUnset_object:
  "lookup options ''css'' = JObj css \<Longrightarrow>
   cssIsUnset options =
     (if lookup css ''requireModuleExtension'' \<noteq> JUndef then Inr False
      else if lookup css ''extract'' \<noteq> JUndef then Inr False
      else if lookup css ''sourceMap'' \<noteq> JUndef then Inr False
      else (case objectKeysLength (lookup css ''loaderOptions'') of
              Inl e \<Rightarrow> Inl e
            | Inr n \<Rightarrow> Inr (n = 0)))"
  by (simp add: cssIsUnset_def member_def)

lemma overrides_css_unset:
  "lookup options ''css'' = JUndef \<Longrightarrow>
   lookup (spread raw (overrides options)) ''css'' = lookup raw ''css''"
  by (simp add: lookup_spread_overrides)

lemma overrides_css_set:
  "lookup options ''css'' = JObj css \<Longrightarrow>
   lookup (spread raw (overrides options)) ''css'' = JObj css"
  by (simp add: lookup_spread_overrides devServerBuilderOverriddenKeys_def)

lemma cssIsUnset_throws:
  "cssIsUnset options = Inl e \<longleftrightarrow>
     e = TypeError \<and>
     (lookup options ''css'' = JUndef \<or> lookup options ''css'' = JNull \<or>
      optMember (lookup options ''css'') ''requireModuleExtension'' = JUndef \<and>
      optMember (lookup options ''css'') ''extract'' = JUndef \<and>
      optMember (lookup options ''css'') ''sourceMap'' = JUndef \<and>
      (optMember (lookup options ''css'') ''loaderOptions'' = JUndef \<or>
       optMember (lookup options ''css'') ''loaderOptions'' = JNull))"
proof (cases "lookup options ''css''")
  case (JObj css)
  show ?thesis
    by (cases "lookup css ''loaderOptions''")
       (auto simp: cssIsUnset_object [OF JObj] JObj optMember_def member_def objectKeysLength_def)
qed (auto simp: cssIsUnset_def member_def optMember_def objectKeysLength_def)

lemma merge_defined: "source \<noteq> JUndef \<Longrightarrow> merge merged source \<noteq> JUndef"
  by (simp add: merge.simps)

lemma mergeKeys_defined:
  "lookup merged key \<noteq> JUndef \<Longrightarrow> lookup (mergeKeys merged source) key \<noteq> JUndef"
proof (induction source arbitrary: merged)
  case Nil
  then show ?case by simp
next
  case (Cons p rest)
  obtain k v where p: "p = (k, v)" by (cases p)
  show ?case
  proof (cases "v = JUndef")
    case True
    with Cons p show ?thesis by simp
  next
    case False
    have "lookup (AList.update k (case map_of merged k of Some mv \<Rightarrow> merge mv v | None \<Rightarrow> v)
            merged) key \<noteq> JUndef"
      using Cons.prems False by (auto simp: merge_defined split: option.splits)
    from Cons.IH [OF this] False p show ?thesis by simp
  qed
qed

lemma defaults_css:
  "lookup defaults ''css'' =
     JObj [(''requireModuleExtension'', JBool True), (''extract'', JBool False),
           (''sourceMap'', JBool False), (''loaderOptions'', JObj [])]"
  by (simp add: defaults_def)

lemma inlineOptions_css_defined:
  assumes "setup_async w options log = (Resolved r, log')"
  shows "lookup (inlineOptions r) ''css'' \<noteq> JUndef"
proof -
  from setup_async_Resolved [OF assms] obtain vc merged where
    merged: "merged = mergeKeys (mergeKeys (mergeKeys [] defaults) vc)
               (explicitOptions (browserOptions r) options)" and
    io: "(case configureWebpackFile w (projectRoot r) of
              None \<Rightarrow> inlineOptions r = merged \<and> log' = log
            | Some f \<Rightarrow>
                inlineOptions r = AList.update ''configureWebpack'' (JFun f) merged \<and>
                log' = log @ [deprecation])"
    by blast
  have d: "lookup (mergeKeys [] defaults) ''css'' \<noteq> JUndef"
    by (simp add: lookup_mergeKeys_defaults defaults_css)
  have "lookup merged ''css'' \<noteq> JUndef"
    unfolding merged by (rule mergeKeys_defined [OF mergeKeys_defined [OF d]])
  moreover from io have "lookup (inlineOptions r) ''css'' = lookup merged ''css''"
    by (cases "configureWebpackFile w (projectRoot r)") simp_all
  ultimately show ?thesis by simp
qed

lemma inlineOptions_css_layers:
  assumes "setup_async w options log = (Resolved r, log')"
    and "jor (resolveVueConfig w (projectRoot r)) (JObj []) = JObj vueConfig"
    and "distinct (map fst vueConfig)"
  shows "lookup (inlineOptions r) ''css'' =
           (let lower = (if lookup vueConfig ''css'' = JUndef then lookup defaults ''css''
                         else merge (lookup defaults ''css'') (lookup vueConfig ''css''))
            in if lookup (browserOptions r) ''css'' = JUndef then lower
               else merge lower (lookup (browserOptions r) ''css''))"
proof -
  from setup_async_Resolved [OF assms(1)] obtain vc merged where
    vc: "jor (resolveVueConfig w (projectRoot r)) (JObj []) = JObj vc" and
    merged: "merged = mergeKeys (mergeKeys (mergeKeys [] defaults) vc)
               (explicitOptions (browserOptions r) options)" and
    io: "(case configureWebpackFile w (projectRoot r) of
              None \<Rightarrow> inlineOptions r = merged \<and> log' = log
            | Some f \<Rightarrow>
                inlineOptions r = AList.update ''configureWebpack'' (JFun f) merged \<and>
                log' = log @ [deprecation])"
    by blast
  from vc assms(2) have "vc = vueConfig" by simp
  have e: "lookup (explicitOptions (browserOptions r) options) ''css'' =
             lookup (browserOptions r) ''css''"
    by (simp add: explicitOptions_def)
  from io have "lookup (inlineOptions r) ''css'' = lookup merged ''css''"
    by (cases "configureWebpackFile w (projectRoot r)") simp_all
  then show ?thesis
    unfolding merged \<open>vc = vueConfig\<close>
    by (simp only: lookup_merged_layers [OF assms(3)] e Let_def)
qed

lemma setup_async_progress:
  assumes "targetFromTargetString w (lookup options ''browserTarget'') = Inr target"
    and "getTargetOptions w target = Resolved raw"
    and "getBuilderNameForTarget w target = Resolved name"
    and "validateOptions w (spread raw (overrides options)) name = Resolved validated"
    and "getProjectRoot w = Resolved root"
    and "jor (resolveVueConfig w root) (JObj []) = JObj vueConfig"
  shows "setup_async w options log =
           (Resolved \<lparr>projectRoot = root, browserOptions = validated,
              inlineOptions =
                (case configureWebpackFile w root of
                   None \<Rightarrow>
                     mergeKeys (mergeKeys (mergeKeys [] defaults) vueConfig)
                       (explicitOptions validated options)
                 | Some f \<Rightarrow>
                     AList.update ''configureWebpack'' (JFun f)
                       (mergeKeys (mergeKeys (mergeKeys [] defaults) vueConfig)
                          (explicitOptions validated options)))\<rparr>,
            case configureWebpackFile w root of
              None \<Rightarrow> log
            | Some f \<Rightarrow> log @ [deprecation])"
  using assms
  by (simp add: setup_async_def await_def Let_def mergeOptions3 resolveConfigureWebpack_def
           split: option.splits)

lemma runBuilder_Resolved:
  assumes "normalizeCss options = Inr options'"
    and "setup_async w options' [] = (Resolved r, log)"
    and "checkUnsupportedConfig w (projectRoot r) = None"
    and "runBuilder w options = Inr out"
  shows "calls out =
           [\<lparr>serviceContext = projectRoot r, pkg = resolvePkg w,
              serviceInlineOptions = inlineOptions r, command = ''serve'',
              args = serveArgs options' (browserOptions r) (inlineOptions r),
              rawArgv = [''serve'']\<rparr>]"
  using assms
  by (auto simp: runBuilder_def Let_def split: promise.splits sum.splits)


section \<open>The example invocation, evaluated\<close>

lemma ex_normalizeCss: "normalizeCss exOptions = Inr exNormalized"
  by (simp add: normalizeCss_def cssIsUnset_def member_def objectKeysLength_def
        exOptions_def exNormalized_def)

lemma ex_overrides: "spread exBrowserTargetOptions (overrides exNormalized) = exValidated"
  by (simp add: spread_def overrides_def devServerBuilderOverriddenKeys_def
        exBrowserTargetOptions_def exNormalized_def exOptions_def exValidated_def)

lemma ex_mergeOptions:
  "mergeOptions [JObj defaults, JObj exVueConfig, JObj (explicitOptions exValidated exNormalized)] =
     Inr (butlast exInlineOptions)"
  by (simp add: mergeOptions_def defaults_def exVueConfig_def explicitOptions_def
        exValidated_def exNormalized_def exOptions_def exInlineOptions_def)

lemma ex_setup: "setup_async exWorld exNormalized log = (Resolved exSetupResult, log @ [deprecation])"
  by (simp add: setup_async_def await_def exWorld_def ex_overrides jor_def ex_mergeOptions
        resolveConfigureWebpack_def exSetupResult_def)
     (simp add: exNormalized_def exOptions_def exInlineOptions_def)


lemma ex_serveArgs: "serveArgs exNormalized exValidated exInlineOptions = args exCall"
  by (simp add: serveArgs_def exNormalized_def exOptions_def exValidated_def exInlineOptions_def
        exCall_def jor_def optMember_def member_def)

lemma ex_call:
  "\<lparr>serviceContext = ''apps/demo'', pkg = JObj [], serviceInlineOptions = exInlineOptions,
     command = ''serve'', args = serveArgs exNormalized exValidated exInlineOptions,
     rawArgv = [''serve'']\<rparr> = exCall"
  unfolding ex_serveArgs by (subst (2) exCall_def) (simp add: exCall_def)

lemma ex_runBuilder: "runBuilder exWorld exOptions = Inr exOutcome"
  by (simp add: runBuilder_def ex_normalizeCss ex_setup exSetupResult_def ex_call)
     (simp add: exWorld_def member_def exOutcome_def ex_call)

lemma ex_setup_failing:
  "setup_async exFailingWorld exNormalized log = (Resolved exSetupResult, log @ [deprecation])"
  by (simp add: setup_async_def await_def exFailingWorld_def exWorld_def ex_overrides jor_def
        ex_mergeOptions resolveConfigureWebpack_def exSetupResult_def)
     (simp add: exNormalized_def exOptions_def exInlineOptions_def)

lemma ex_runBuilder_failing:
  "runBuilder exFailingWorld exOptions =
     Inr (exOutcome\<lparr>stream := [ObsError (Raised (JStr ''EADDRINUSE''))]\<rparr>)"
  by (simp add: runBuilder_def ex_normalizeCss ex_setup_failing exSetupResult_def ex_call)
     (simp add: exFailingWorld_def exWorld_def exOutcome_def ex_call)



lemma ex_runBuilder_noLoaderOptions:
  "runBuilder exWorld exOptionsNoLoaderOptions = Inr exOutcome"
proof -
  have n: "normalizeCss exOptionsNoLoaderOptions = Inr exOptionsNoLoaderOptions"
    by (simp add: normalizeCss_def cssIsUnset_def member_def exOptionsNoLoaderOptions_def
          exOptions_def)
  have v: "spread exBrowserTargetOptions (overrides exOptionsNoLoaderOptions) =
             AList.update ''css'' (JObj [(''extract'', JBool True)]) exValidated"
    by (simp add: spread_def overrides_def devServerBuilderOverriddenKeys_def
          exBrowserTargetOptions_def exOptionsNoLoaderOptions_def exOptions_def exValidated_def)
  have m: "mergeOptions [JObj defaults, JObj exVueConfig,
             JObj (explicitOptions (AList.update ''css'' (JObj [(''extract'', JBool True)]) exValidated)
                     exOptionsNoLoaderOptions)] =
           Inr (butlast exInlineOptions)"
    by (simp add: mergeOptions_def defaults_def exVueConfig_def explicitOptions_def
          exValidated_def exOptionsNoLoaderOptions_def exOptions_def exInlineOptions_def)
  have s: "setup_async exWorld exOptionsNoLoaderOptions [] =
             (Resolved \<lparr>projectRoot = ''apps/demo'',
                 browserOptions = AList.update ''css'' (JObj [(''extract'', JBool True)]) exValidated,
                 inlineOptions = exInlineOptions\<rparr>, [deprecation])"
    by (simp add: setup_async_def await_def exWorld_def v jor_def m resolveConfigureWebpack_def)
       (simp add: exOptionsNoLoaderOptions_def exOptions_def exInlineOptions_def)
  have a: "serveArgs exOptionsNoLoaderOptions
             (AList.update ''css'' (JObj [(''extract'', JBool True)]) exValidated) exInlineOptions =
           args exCall"
    by (simp add: serveArgs_def exOptionsNoLoaderOptions_def exOptions_def exValidated_def
          exInlineOptions_def exCall_def jor_def optMember_def member_def)
  have c: "\<lparr>serviceContext = ''apps/demo'', pkg = JObj [], serviceInlineOptions = exInlineOptions,
     command = ''serve'', args = args exCall, rawArgv = [''serve'']\<rparr> = exCall"
    by (subst (2) exCall_def) (simp add: exCall_def)
  show ?thesis
    by (simp add: runBuilder_def n s a)
       (simp add: exWorld_def member_def exOutcome_def a c)
qed

section \<open>The claims\<close>

text \<open>
  C1, as amended. For every key other than \<^verbatim>\<open>configureWebpack\<close> (which only the project
  configuration can hold, and which the legacy hook overwrites), the inline options
  hold the three layers combined in increasing priority: the defaults, the project
  configuration, the explicit options. An \<^verbatim>\<open>undefined\<close> value leaves the value of the
  lower layers in place; a defined value replaces the value below it when either of
  the two is not a plain object, and is merged into it, key by key and recursively,
  when both are plain objects. So the explicit value, otherwise the project
  configuration's, otherwise the default is held as it is for every key but those
  where a plain object meets a plain object (\<^verbatim>\<open>css\<close>, \<^verbatim>\<open>devServer\<close>).
\<close>

theorem inlineOptions_layers:
  assumes "setup_async w options log = (Resolved r, log')"
    and "jor (resolveVueConfig w (projectRoot r)) (JObj []) = JObj vueConfig"
    and "distinct (map fst vueConfig)"
    and "key \<noteq> ''configureWebpack''"
  shows "(let d = lookup defaults key;
              v = lookup vueConfig key;
              e = lookup (explicitOptions (browserOptions r) options) key;
              lower = (if v = JUndef then d else merge d v);
              held = lookup (inlineOptions r) key
          in held = (if e = JUndef then lower else merge lower e) \<and>
             (e \<noteq> JUndef \<and> (\<not> isOptionObject e \<or> \<not> isOptionObject lower) \<longrightarrow> held = e) \<and>
             (e = JUndef \<and> v \<noteq> JUndef \<and> (\<not> isOptionObject v \<or> \<not> isOptionObject d)
                \<longrightarrow> held = v) \<and>
             (e = JUndef \<and> v = JUndef \<longrightarrow> held = d) \<and>
             (\<forall>eo lo. e = JObj eo \<and> lower = JObj lo \<longrightarrow> held = JObj (mergeKeys lo eo)))"
proof -
  from setup_async_Resolved [OF assms(1)] obtain vc merged where
    vc: "jor (resolveVueConfig w (projectRoot r)) (JObj []) = JObj vc" and
    merged: "merged = mergeKeys (mergeKeys (mergeKeys [] defaults) vc)
               (explicitOptions (browserOptions r) options)" and
    io: "(case configureWebpackFile w (projectRoot r) of
              None \<Rightarrow> inlineOptions r = merged \<and> log' = log
            | Some f \<Rightarrow>
                inlineOptions r = AList.update ''configureWebpack'' (JFun f) merged \<and>
                log' = log @ [deprecation])"
    by blast
  from vc assms(2) have "vc = vueConfig" by simp
  from io assms(4) have "lookup (inlineOptions r) key = lookup merged key"
    by (cases "configureWebpackFile w (projectRoot r)") simp_all
  then have held: "lookup (inlineOptions r) key =
         (let d = lookup defaults key;
              v = lookup vueConfig key;
              e = lookup (explicitOptions (browserOptions r) options) key;
              lower = (if v = JUndef then d else merge d v)
          in if e = JUndef then lower else merge lower e)"
    unfolding merged \<open>vc = vueConfig\<close> by (simp only: lookup_merged_layers [OF assms(3)])
  show ?thesis
    unfolding Let_def held [unfolded Let_def]
    by (auto simp: merge_non_object)
qed

text \<open>
  The claim as stated fails for \<^verbatim>\<open>devServer\<close>: the invocation gives
  \<^verbatim>\<open>{ https: true }\<close>, the project configuration a port and a host, and the delegate
  receives all three fields, not the explicit value.
\<close>

theorem inlineOptions_layers_counterexample:
  "runBuilder exWorld exOptions = Inr exOutcome \<and>
   map serviceInlineOptions (calls exOutcome) = [exInlineOptions] \<and>
   lookup defaults ''devServer'' = JObj [] \<and>
   lookup exVueConfig ''devServer'' = JObj [(''port'', JNum 8080), (''host'', JStr ''0.0.0.0'')] \<and>
   lookup exOptions ''devServer'' = JObj [(''https'', JBool True)] \<and>
   lookup exInlineOptions ''devServer'' =
     JObj [(''port'', JNum 8080), (''host'', JStr ''0.0.0.0''), (''https'', JBool True)] \<and>
   lookup exInlineOptions ''devServer'' \<noteq> lookup exOptions ''devServer''"
  using ex_runBuilder
  by (simp add: exOutcome_def exCall_def defaults_def exVueConfig_def exOptions_def
        exInlineOptions_def)

theorem inlineOptions_layers_witness:
  "setup_async exWorld exNormalized [] = (Resolved exSetupResult, [deprecation]) \<and>
   jor (resolveVueConfig exWorld (projectRoot exSetupResult)) (JObj []) = JObj exVueConfig \<and>
   distinct (map fst exVueConfig) \<and>
   lookup (inlineOptions exSetupResult) ''devServer'' =
     merge (merge (lookup defaults ''devServer'') (lookup exVueConfig ''devServer''))
       (lookup exNormalized ''devServer'') \<and>
   lookup (inlineOptions exSetupResult) ''transpileDependencies'' =
     lookup exNormalized ''transpileDependencies'' \<and>
   lookup (inlineOptions exSetupResult) ''publicPath'' = lookup defaults ''publicPath''"
proof -
  have s: "setup_async exWorld exNormalized [] = (Resolved exSetupResult, [] @ [deprecation])"
    by (rule ex_setup)
  have j: "jor (resolveVueConfig exWorld (projectRoot exSetupResult)) (JObj []) = JObj exVueConfig"
    by (simp add: exWorld_def jor_def)
  have d: "distinct (map fst exVueConfig)" by (simp add: exVueConfig_def)
  have e: "lookup (explicitOptions (browserOptions exSetupResult) exNormalized) ''devServer'' =
             lookup exNormalized ''devServer''"
          "lookup (explicitOptions (browserOptions exSetupResult) exNormalized)
             ''transpileDependencies'' = lookup exNormalized ''transpileDependencies''"
          "lookup (explicitOptions (browserOptions exSetupResult) exNormalized) ''publicPath'' =
             JUndef"
    by (simp_all add: explicitOptions_def exSetupResult_def exValidated_def)
  have v: "lookup exNormalized ''devServer'' = JObj [(''https'', JBool True)]"
          "lookup exNormalized ''transpileDependencies'' = JArr []"
          "lookup exVueConfig ''devServer'' =
             JObj [(''port'', JNum 8080), (''host'', JStr ''0.0.0.0'')]"
          "lookup exVueConfig ''publicPath'' = JUndef"
    by (simp_all add: exNormalized_def exOptions_def exVueConfig_def)
  from inlineOptions_layers [OF s j d, of "''devServer''"]
  have 1: "lookup (inlineOptions exSetupResult) ''devServer'' =
     merge (merge (lookup defaults ''devServer'') (lookup exVueConfig ''devServer''))
       (lookup exNormalized ''devServer'')"
    by (simp add: Let_def e v)
  from inlineOptions_layers [OF s j d, of "''transpileDependencies''"]
  have 2: "lookup (inlineOptions exSetupResult) ''transpileDependencies'' =
     lookup exNormalized ''transpileDependencies''"
    by (simp add: Let_def e v)
  from inlineOptions_layers [OF s j d, of "''publicPath''"]
  have 3: "lookup (inlineOptions exSetupResult) ''publicPath'' = lookup defaults ''publicPath''"
    by (simp add: Let_def e v)
  from s j d 1 2 3 show ?thesis by simp
qed

text \<open>
  C2, as amended. When \<^verbatim>\<open>requireModuleExtension\<close>, \<^verbatim>\<open>extract\<close> and \<^verbatim>\<open>sourceMap\<close> of
  \<^verbatim>\<open>options.css\<close> are undefined and \<^verbatim>\<open>loaderOptions\<close> has no key, lines 53 to 60
  set \<^verbatim>\<open>options.css\<close> to \<^verbatim>\<open>undefined\<close>: it is not among the overrides, and the
  \<^verbatim>\<open>css\<close> of the browser target reaches validation as it is. When any sub-option is
  set, the options are left as given and \<^verbatim>\<open>css\<close> is copied onto the browser target's
  options as given. In both cases the \<^verbatim>\<open>css\<close> of the merged inline options is never
  left unset: whenever \<^verbatim>\<open>setup\<close> resolves it is defined, and it is the built-in default
  \<^verbatim>\<open>{ requireModuleExtension: true, extract: false, sourceMap: false, loaderOptions: {} }\<close>
  overlaid by the project configuration's \<^verbatim>\<open>css\<close> and then by the \<^verbatim>\<open>css\<close> of the
  validated browser options.
\<close>

theorem css_left_unset:
  assumes "lookup options ''css'' = JObj css"
  shows "(lookup css ''requireModuleExtension'' = JUndef \<and>
          lookup css ''extract'' = JUndef \<and>
          lookup css ''sourceMap'' = JUndef \<and>
          objectKeysLength (lookup css ''loaderOptions'') = Inr 0
          \<longrightarrow> normalizeCss options = Inr (AList.update ''css'' JUndef options) \<and>
              lookup (AList.update ''css'' JUndef options) ''css'' = JUndef \<and>
              ''css'' \<notin> fst ` set (overrides (AList.update ''css'' JUndef options)) \<and>
              lookup (spread raw (overrides (AList.update ''css'' JUndef options))) ''css'' =
                lookup raw ''css'') \<and>
         (lookup css ''requireModuleExtension'' \<noteq> JUndef \<or>
          lookup css ''extract'' \<noteq> JUndef \<or>
          lookup css ''sourceMap'' \<noteq> JUndef \<or>
          (\<exists>n. objectKeysLength (lookup css ''loaderOptions'') = Inr (Suc n))
          \<longrightarrow> normalizeCss options = Inr options \<and>
              lookup (spread raw (overrides options)) ''css'' = JObj css) \<and>
         (setup_async w options' log = (Resolved r, log')
          \<longrightarrow> lookup (inlineOptions r) ''css'' \<noteq> JUndef \<and>
              (\<forall>vueConfig.
                 jor (resolveVueConfig w (projectRoot r)) (JObj []) = JObj vueConfig \<and>
                 distinct (map fst vueConfig)
                 \<longrightarrow> lookup (inlineOptions r) ''css'' =
                       (let lower =
                              (if lookup vueConfig ''css'' = JUndef
                               then JObj [(''requireModuleExtension'', JBool True),
                                          (''extract'', JBool False),
                                          (''sourceMap'', JBool False),
                                          (''loaderOptions'', JObj [])]
                               else merge (JObj [(''requireModuleExtension'', JBool True),
                                                 (''extract'', JBool False),
                                                 (''sourceMap'', JBool False),
                                                 (''loaderOptions'', JObj [])])
                                      (lookup vueConfig ''css''))
                        in if lookup (browserOptions r) ''css'' = JUndef then lower
                           else merge lower (lookup (browserOptions r) ''css''))))"
proof -
  have a: "normalizeCss options = Inr (AList.update ''css'' JUndef options)"
    if "lookup css ''requireModuleExtension'' = JUndef" "lookup css ''extract'' = JUndef"
       "lookup css ''sourceMap'' = JUndef"
       "objectKeysLength (lookup css ''loaderOptions'') = Inr 0"
    using that by (simp add: normalizeCss_def cssIsUnset_object [OF assms])
  have b: "lookup (AList.update ''css'' JUndef options) ''css'' = JUndef" by simp
  have c: "''css'' \<notin> fst ` set (overrides (AList.update ''css'' JUndef options))"
    by (simp add: keys_overrides)
  have d: "normalizeCss options = Inr options"
    if "lookup css ''requireModuleExtension'' \<noteq> JUndef \<or>
        lookup css ''extract'' \<noteq> JUndef \<or>
        lookup css ''sourceMap'' \<noteq> JUndef \<or>
        (\<exists>n. objectKeysLength (lookup css ''loaderOptions'') = Inr (Suc n))"
    using that by (auto simp: normalizeCss_def cssIsUnset_object [OF assms])
  have e: "lookup (inlineOptions r) ''css'' \<noteq> JUndef"
    if "setup_async w options' log = (Resolved r, log')"
    using that by (rule inlineOptions_css_defined)
  have f: "lookup (inlineOptions r) ''css'' =
                       (let lower =
                              (if lookup vueConfig ''css'' = JUndef
                               then JObj [(''requireModuleExtension'', JBool True),
                                          (''extract'', JBool False),
                                          (''sourceMap'', JBool False),
                                          (''loaderOptions'', JObj [])]
                               else merge (JObj [(''requireModuleExtension'', JBool True),
                                                 (''extract'', JBool False),
                                                 (''sourceMap'', JBool False),
                                                 (''loaderOptions'', JObj [])])
                                      (lookup vueConfig ''css''))
                        in if lookup (browserOptions r) ''css'' = JUndef then lower
                           else merge lower (lookup (browserOptions r) ''css''))"
    if "setup_async w options' log = (Resolved r, log')"
       "jor (resolveVueConfig w (projectRoot r)) (JObj []) = JObj vueConfig"
       "distinct (map fst vueConfig)" for vueConfig
    using inlineOptions_css_layers [OF that] by (simp only: defaults_css)
  from a b c d e f overrides_css_unset [OF b, of raw] overrides_css_set [OF assms, of raw]
  show ?thesis by blast
qed

text \<open>
  The claim as stated fails for the merged option: with every CSS sub-option of the
  invocation unset, the \<^verbatim>\<open>css\<close> the delegate receives is not unset; it carries
  \<^verbatim>\<open>requireModuleExtension\<close> and \<^verbatim>\<open>sourceMap\<close> from the built-in defaults beside the
  \<^verbatim>\<open>extract\<close> of the browser target.
\<close>

theorem css_left_unset_counterexample:
  "lookup exOptions ''css'' = JObj [(''loaderOptions'', JObj [])] \<and>
   runBuilder exWorld exOptions = Inr exOutcome \<and>
   map serviceInlineOptions (calls exOutcome) = [exInlineOptions] \<and>
   lookup exInlineOptions ''css'' =
     JObj [(''requireModuleExtension'', JBool True), (''extract'', JBool True),
           (''sourceMap'', JBool False), (''loaderOptions'', JObj [])] \<and>
   lookup exInlineOptions ''css'' \<noteq> JUndef"
  using ex_runBuilder
  by (simp add: exOptions_def exOutcome_def exCall_def exInlineOptions_def)

theorem css_left_unset_witness:
  "lookup exOptions ''css'' = JObj [(''loaderOptions'', JObj [])] \<and>
   normalizeCss exOptions = Inr exNormalized \<and>
   lookup exNormalized ''css'' = JUndef \<and>
   lookup (spread exBrowserTargetOptions (overrides exNormalized)) ''css'' =
     lookup exBrowserTargetOptions ''css'' \<and>
   lookup exOptionsSourceMap ''css'' =
     JObj [(''sourceMap'', JBool True), (''loaderOptions'', JObj [])] \<and>
   normalizeCss exOptionsSourceMap = Inr exOptionsSourceMap \<and>
   lookup (spread exBrowserTargetOptions (overrides exOptionsSourceMap)) ''css'' =
     JObj [(''sourceMap'', JBool True), (''loaderOptions'', JObj [])] \<and>
   setup_async exWorld exNormalized [] = (Resolved exSetupResult, [deprecation]) \<and>
   jor (resolveVueConfig exWorld (projectRoot exSetupResult)) (JObj []) = JObj exVueConfig \<and>
   distinct (map fst exVueConfig) \<and>
   lookup (inlineOptions exSetupResult) ''css'' =
     merge (JObj [(''requireModuleExtension'', JBool True), (''extract'', JBool False),
                  (''sourceMap'', JBool False), (''loaderOptions'', JObj [])])
       (lookup exValidated ''css'')"
proof -
  have a: "lookup exOptions ''css'' = JObj [(''loaderOptions'', JObj [])]"
    by (simp add: exOptions_def)
  have b: "lookup exOptionsSourceMap ''css'' =
     JObj [(''sourceMap'', JBool True), (''loaderOptions'', JObj [])]"
    by (simp add: exOptionsSourceMap_def)
  have s: "setup_async exWorld exNormalized [] = (Resolved exSetupResult, [deprecation])"
    using ex_setup [of "[]"] by simp
  have j: "jor (resolveVueConfig exWorld (projectRoot exSetupResult)) (JObj []) = JObj exVueConfig"
    by (simp add: exWorld_def jor_def)
  have d: "distinct (map fst exVueConfig)" by (simp add: exVueConfig_def)
  have v: "lookup exVueConfig ''css'' = JUndef"
          "lookup (browserOptions exSetupResult) ''css'' = lookup exValidated ''css''"
          "lookup exValidated ''css'' \<noteq> JUndef"
    by (simp_all add: exVueConfig_def exSetupResult_def exValidated_def)
  from css_left_unset [OF a, of exBrowserTargetOptions]
  have 1: "normalizeCss exOptions = Inr exNormalized \<and>
   lookup exNormalized ''css'' = JUndef \<and>
   lookup (spread exBrowserTargetOptions (overrides exNormalized)) ''css'' =
     lookup exBrowserTargetOptions ''css''"
    by (simp add: objectKeysLength_def exNormalized_def)
  from css_left_unset [OF b, of exBrowserTargetOptions]
  have 2: "normalizeCss exOptionsSourceMap = Inr exOptionsSourceMap \<and>
   lookup (spread exBrowserTargetOptions (overrides exOptionsSourceMap)) ''css'' =
     JObj [(''sourceMap'', JBool True), (''loaderOptions'', JObj [])]"
    by simp
  from css_left_unset [OF a, of _ exWorld exNormalized "[]" exSetupResult "[deprecation]"] s j d
  have 3: "lookup (inlineOptions exSetupResult) ''css'' =
     merge (JObj [(''requireModuleExtension'', JBool True), (''extract'', JBool False),
                  (''sourceMap'', JBool False), (''loaderOptions'', JObj [])])
       (lookup exValidated ''css'')"
    by (simp add: Let_def v)
  from a b s j d 1 2 3 show ?thesis by simp
qed





text \<open>
  C5. The delegate is called at most once per invocation, and when its run call rejects,
  it was called exactly once and the stream is the single error notification carrying
  the very reason of the rejection. It is called exactly once, with the command
  \<^verbatim>\<open>serve\<close>, whenever \<^verbatim>\<open>setup\<close> resolves and the check for unsupported configuration
  passes; that is so whenever the host's calls resolve, the project configuration is an
  object and the check passes.
\<close>

theorem delegate_failure_forwarded:
  assumes "runBuilder w options = Inr out"
  shows "length (calls out) \<le> 1 \<and>
         (\<forall>c err. c \<in> set (calls out) \<and> serviceRun w c = Rejected err
            \<longrightarrow> calls out = [c] \<and> stream out = [ObsError err]) \<and>
         (\<forall>options' r log.
            normalizeCss options = Inr options' \<and>
            setup_async w options' [] = (Resolved r, log) \<and>
            checkUnsupportedConfig w (projectRoot r) = None
            \<longrightarrow> calls out =
                  [\<lparr>serviceContext = projectRoot r, pkg = resolvePkg w,
                     serviceInlineOptions = inlineOptions r, command = ''serve'',
                     args = serveArgs options' (browserOptions r) (inlineOptions r),
                     rawArgv = [''serve'']\<rparr>]) \<and>
         (\<forall>options' target raw name validated root vueConfig.
            normalizeCss options = Inr options' \<and>
            targetFromTargetString w (lookup options' ''browserTarget'') = Inr target \<and>
            getTargetOptions w target = Resolved raw \<and>
            getBuilderNameForTarget w target = Resolved name \<and>
            validateOptions w (spread raw (overrides options')) name = Resolved validated \<and>
            getProjectRoot w = Resolved root \<and>
            jor (resolveVueConfig w root) (JObj []) = JObj vueConfig \<and>
            checkUnsupportedConfig w root = None
            \<longrightarrow> length (calls out) = 1)"
proof -
  have 1: "length (calls out) \<le> 1"
  proof (cases "calls out")
    case Nil
    then show ?thesis by simp
  next
    case (Cons c cs)
    then have "c \<in> set (calls out)" by simp
    from assms this have "calls out = [c]" by (rule runBuilder_call)
    then show ?thesis by simp
  qed
  have 2: "calls out = [c] \<and> stream out = [ObsError err]"
    if c: "c \<in> set (calls out)" and rej: "serviceRun w c = Rejected err" for c err
    using assms c by (rule runBuilder_call) (simp add: rej)
  have 3: "calls out =
             [\<lparr>serviceContext = projectRoot r, pkg = resolvePkg w,
                serviceInlineOptions = inlineOptions r, command = ''serve'',
                args = serveArgs options' (browserOptions r) (inlineOptions r),
                rawArgv = [''serve'']\<rparr>]"
    if "normalizeCss options = Inr options'" "setup_async w options' [] = (Resolved r, log)"
       "checkUnsupportedConfig w (projectRoot r) = None" for options' r log
    using that assms by (rule runBuilder_Resolved)
  have 4: "length (calls out) = 1"
    if n: "normalizeCss options = Inr options'"
      and t: "targetFromTargetString w (lookup options' ''browserTarget'') = Inr target"
      and g: "getTargetOptions w target = Resolved raw"
      and b: "getBuilderNameForTarget w target = Resolved name"
      and v: "validateOptions w (spread raw (overrides options')) name = Resolved validated"
      and p: "getProjectRoot w = Resolved root"
      and j: "jor (resolveVueConfig w root) (JObj []) = JObj vueConfig"
      and u: "checkUnsupportedConfig w root = None"
    for options' target raw name validated root vueConfig
  proof -
    note s = setup_async_progress [OF t g b v p j, of "[]"]
    from u have "checkUnsupportedConfig w (projectRoot \<lparr>projectRoot = root, browserOptions = validated,
              inlineOptions =
                (case configureWebpackFile w root of
                   None \<Rightarrow>
                     mergeKeys (mergeKeys (mergeKeys [] defaults) vueConfig)
                       (explicitOptions validated options')
                 | Some f \<Rightarrow>
                     AList.update ''configureWebpack'' (JFun f)
                       (mergeKeys (mergeKeys (mergeKeys [] defaults) vueConfig)
                          (explicitOptions validated options')))\<rparr>) = None"
      by simp
    from runBuilder_Resolved [OF n s this assms] show ?thesis by simp
  qed
  from 1 2 3 4 show ?thesis by blast
qed

theorem delegate_failure_forwarded_witness:
  "runBuilder exFailingWorld exOptions =
     Inr (exOutcome\<lparr>stream := [ObsError (Raised (JStr ''EADDRINUSE''))]\<rparr>) \<and>
   normalizeCss exOptions = Inr exNormalized \<and>
   setup_async exFailingWorld exNormalized [] = (Resolved exSetupResult, [deprecation]) \<and>
   checkUnsupportedConfig exFailingWorld (projectRoot exSetupResult) = None \<and>
   serviceRun exFailingWorld exCall = Rejected (Raised (JStr ''EADDRINUSE'')) \<and>
   calls (exOutcome\<lparr>stream := [ObsError (Raised (JStr ''EADDRINUSE''))]\<rparr>) = [exCall] \<and>
   stream (exOutcome\<lparr>stream := [ObsError (Raised (JStr ''EADDRINUSE''))]\<rparr>) =
     [ObsError (Raised (JStr ''EADDRINUSE''))]"
proof -
  note d = delegate_failure_forwarded [OF ex_runBuilder_failing]
  have s: "setup_async exFailingWorld exNormalized [] = (Resolved exSetupResult, [deprecation])"
    using ex_setup_failing [of "[]"] by simp
  have u: "checkUnsupportedConfig exFailingWorld (projectRoot exSetupResult) = None"
    by (simp add: exFailingWorld_def exWorld_def)
  have r: "serviceRun exFailingWorld exCall = Rejected (Raised (JStr ''EADDRINUSE''))"
    by (simp add: exFailingWorld_def)
  have p: "resolvePkg exFailingWorld = JObj []" "projectRoot exSetupResult = ''apps/demo''"
    "inlineOptions exSetupResult = exInlineOptions" "browserOptions exSetupResult = exValidated"
    by (simp_all add: exFailingWorld_def exWorld_def exSetupResult_def)
  from d ex_normalizeCss s u have
    c: "calls (exOutcome\<lparr>stream := [ObsError (Raised (JStr ''EADDRINUSE''))]\<rparr>) = [exCall]"
    by (simp add: p ex_call)
  with d r have
    "stream (exOutcome\<lparr>stream := [ObsError (Raised (JStr ''EADDRINUSE''))]\<rparr>) =
       [ObsError (Raised (JStr ''EADDRINUSE''))]"
    by simp
  with ex_runBuilder_failing ex_normalizeCss s u r c show ?thesis by simp
qed

text \<open>
  C6. The keys of the overrides are exactly the whitelisted keys \<^verbatim>\<open>mode\<close>,
  \<^verbatim>\<open>skipPlugins\<close>, \<^verbatim>\<open>publicPath\<close>, \<^verbatim>\<open>css\<close> and \<^verbatim>\<open>stdin\<close> whose value in the
  invocation options (as lines 53 to 60 left them) is defined. In the object passed to
  validation each of these keys has the invocation option's value and every other key
  has the value of the raw browser-target options; no other invocation option is copied.
\<close>

theorem overrides_whitelist:
  "set devServerBuilderOverriddenKeys =
     {''mode'', ''skipPlugins'', ''publicPath'', ''css'', ''stdin''} \<and>
   fst ` set (overrides options) =
     {key \<in> set devServerBuilderOverriddenKeys. lookup options key \<noteq> JUndef} \<and>
   lookup (spread raw (overrides options)) key =
     (if key \<in> set devServerBuilderOverriddenKeys \<and> lookup options key \<noteq> JUndef
      then lookup options key else lookup raw key) \<and>
   (setup_async w options log = (Resolved r, log') \<longrightarrow>
      (\<exists>target rawBrowserOptions browserName.
         getTargetOptions w target = Resolved rawBrowserOptions \<and>
         validateOptions w (spread rawBrowserOptions (overrides options)) browserName =
           Resolved (browserOptions r)))"
proof -
  have "set devServerBuilderOverriddenKeys =
     {''mode'', ''skipPlugins'', ''publicPath'', ''css'', ''stdin''}"
    by (simp add: devServerBuilderOverriddenKeys_def)
  moreover have "\<exists>target rawBrowserOptions browserName.
         getTargetOptions w target = Resolved rawBrowserOptions \<and>
         validateOptions w (spread rawBrowserOptions (overrides options)) browserName =
           Resolved (browserOptions r)"
    if "setup_async w options log = (Resolved r, log')"
    using setup_async_Resolved [OF that] by blast
  ultimately show ?thesis
    using keys_overrides [of options] lookup_spread_overrides [of raw options key] by blast
qed

theorem overrides_whitelist_witness:
  "fst ` set (overrides exNormalized) = {''mode''} \<and>
   lookup (spread exBrowserTargetOptions (overrides exNormalized)) ''mode'' = JStr ''production'' \<and>
   lookup (spread exBrowserTargetOptions (overrides exNormalized)) ''index'' =
     JStr ''public/index.html'' \<and>
   lookup (spread exBrowserTargetOptions (overrides exNormalized)) ''port'' = JUndef"
proof -
  have k: "{key \<in> set devServerBuilderOverriddenKeys. lookup exNormalized key \<noteq> JUndef} =
             {''mode''}"
    by (auto simp: devServerBuilderOverriddenKeys_def exNormalized_def exOptions_def)
  have m: "''mode'' \<in> set devServerBuilderOverriddenKeys"
          "''index'' \<notin> set devServerBuilderOverriddenKeys"
          "''port'' \<notin> set devServerBuilderOverriddenKeys"
    by (simp_all add: devServerBuilderOverriddenKeys_def)
  have v: "lookup exNormalized ''mode'' = JStr ''production''"
          "lookup exBrowserTargetOptions ''index'' = JStr ''public/index.html''"
          "lookup exBrowserTargetOptions ''port'' = JUndef"
    by (simp_all add: exNormalized_def exOptions_def exBrowserTargetOptions_def)
  from overrides_whitelist [of exNormalized exBrowserTargetOptions "''mode''"]
       overrides_whitelist [of exNormalized exBrowserTargetOptions "''index''"]
       overrides_whitelist [of exNormalized exBrowserTargetOptions "''port''"]
  show ?thesis by (simp add: k m v)
qed

text \<open>
  C7. When the delegate's serve call resolves with a result whose \<^verbatim>\<open>url\<close> can be read,
  the stream is the single record with \<^verbatim>\<open>success\<close> true and \<^verbatim>\<open>baseUrl\<close> equal to
  that \<^verbatim>\<open>url\<close>.
\<close>

theorem success_output:
  assumes "runBuilder w options = Inr out"
    and "c \<in> set (calls out)"
    and "serviceRun w c = Resolved success"
    and "member success ''url'' = Inr url"
  shows "stream out = [ObsNext (JObj [(''success'', JBool True), (''baseUrl'', url)])]"
  using assms(1,2) by (rule runBuilder_call) (simp add: assms(3,4))

theorem success_output_witness:
  "runBuilder exWorld exOptions = Inr exOutcome \<and>
   exCall \<in> set (calls exOutcome) \<and>
   serviceRun exWorld exCall =
     Resolved (JObj [(''server'', JObj []), (''url'', JStr ''http://localhost:8080/'')]) \<and>
   member (JObj [(''server'', JObj []), (''url'', JStr ''http://localhost:8080/'')]) ''url'' =
     Inr (JStr ''http://localhost:8080/'') \<and>
   stream exOutcome =
     [ObsNext (JObj [(''success'', JBool True), (''baseUrl'', JStr ''http://localhost:8080/'')])]"
proof -
  have c: "exCall \<in> set (calls exOutcome)" by (simp add: exOutcome_def)
  have s: "serviceRun exWorld exCall =
     Resolved (JObj [(''server'', JObj []), (''url'', JStr ''http://localhost:8080/'')])"
    by (simp add: exWorld_def)
  have m: "member (JObj [(''server'', JObj []), (''url'', JStr ''http://localhost:8080/'')]) ''url'' =
     Inr (JStr ''http://localhost:8080/'')"
    by (simp add: member_def)
  from success_output [OF ex_runBuilder c s m] ex_runBuilder c s m show ?thesis by simp
qed

text \<open>
  C8. For each of \<^verbatim>\<open>open\<close>, \<^verbatim>\<open>host\<close>, \<^verbatim>\<open>port\<close>, \<^verbatim>\<open>https\<close> and \<^verbatim>\<open>public\<close>, the
  argument passed to the delegate is the invocation option when it is truthy, and
  otherwise that field of the \<^verbatim>\<open>devServer\<close> object of the inline options; a falsy
  invocation option never takes precedence.
\<close>

theorem serve_arguments:
  assumes "runBuilder w options = Inr out"
    and "c \<in> set (calls out)"
    and "key \<in> {''open'', ''host'', ''port'', ''https'', ''public''}"
  shows "lookup (args c) key =
           (if truthy (lookup options key) then lookup options key
            else optMember (lookup (serviceInlineOptions c) ''devServer'') key)"
  using assms(1,2)
proof (rule runBuilder_call)
  fix options' and r :: setupResult
  assume n: "normalizeCss options = Inr options'"
    and io: "serviceInlineOptions c = inlineOptions r"
    and a: "args c = serveArgs options' (browserOptions r) (inlineOptions r)"
  from assms(3) have "key \<noteq> ''css''" by auto
  from normalizeCss_lookup [OF n this] have l: "lookup options' key = lookup options key" .
  have k: "key = ''open'' \<or> key = ''host'' \<or> key = ''port'' \<or> key = ''https'' \<or> key = ''public''"
    using assms(3) by simp
  have "lookup (serveArgs options' (browserOptions r) (inlineOptions r)) key =
          jor (lookup options' key) (optMember (lookup (inlineOptions r) ''devServer'') key)"
    using k by (elim disjE) (simp_all add: serveArgs_def)
  then show ?thesis
    by (simp add: a io l jor_def)
qed

theorem serve_arguments_witness:
  "runBuilder exWorld exOptions = Inr exOutcome \<and>
   exCall \<in> set (calls exOutcome) \<and>
   lookup exOptions ''port'' = JNum 0 \<and>
   lookup (serviceInlineOptions exCall) ''devServer'' =
     JObj [(''port'', JNum 8080), (''host'', JStr ''0.0.0.0''), (''https'', JBool True)] \<and>
   lookup (args exCall) ''port'' = JNum 8080"
proof -
  have c: "exCall \<in> set (calls exOutcome)" by (simp add: exOutcome_def)
  have k: "''port'' \<in> {''open'', ''host'', ''port'', ''https'', ''public''}" by simp
  have p: "lookup exOptions ''port'' = JNum 0" by (simp add: exOptions_def)
  have d: "lookup (serviceInlineOptions exCall) ''devServer'' =
     JObj [(''port'', JNum 8080), (''host'', JStr ''0.0.0.0''), (''https'', JBool True)]"
    by (simp add: exCall_def exInlineOptions_def)
  from serve_arguments [OF ex_runBuilder c k] have "lookup (args exCall) ''port'' = JNum 8080"
    by (simp add: p d optMember_def member_def)
  with ex_runBuilder c p d show ?thesis by simp
qed

text \<open>
  C9, as amended. \<^verbatim>\<open>runBuilder\<close> throws before it returns a stream, and then a
  TypeError, exactly when \<^verbatim>\<open>options.css\<close> is \<^verbatim>\<open>undefined\<close> or \<^verbatim>\<open>null\<close>, or when
  \<^verbatim>\<open>requireModuleExtension\<close>, \<^verbatim>\<open>extract\<close> and \<^verbatim>\<open>sourceMap\<close> are all undefined and
  \<^verbatim>\<open>options.css.loaderOptions\<close> is \<^verbatim>\<open>undefined\<close> or \<^verbatim>\<open>null\<close>. The condition stops at
  the first sub-option that is defined, so \<^verbatim>\<open>loaderOptions\<close> is read only when the
  three others are undefined.
\<close>

theorem css_precondition:
  "(runBuilder w options = Inl e \<longleftrightarrow>
     e = TypeError \<and>
     (lookup options ''css'' = JUndef \<or> lookup options ''css'' = JNull \<or>
      optMember (lookup options ''css'') ''requireModuleExtension'' = JUndef \<and>
      optMember (lookup options ''css'') ''extract'' = JUndef \<and>
      optMember (lookup options ''css'') ''sourceMap'' = JUndef \<and>
      (optMember (lookup options ''css'') ''loaderOptions'' = JUndef \<or>
       optMember (lookup options ''css'') ''loaderOptions'' = JNull)))"
proof -
  have "runBuilder w options = Inl e \<longleftrightarrow> cssIsUnset options = Inl e"
    by (auto simp: runBuilder_def normalizeCss_def split: sum.splits)
  then show ?thesis by (simp only: cssIsUnset_throws)
qed

text \<open>
  The claim as stated fails for \<^verbatim>\<open>css = { extract: true }\<close>: \<^verbatim>\<open>loaderOptions\<close> is
  undefined, nothing is thrown, and the invocation serves as usual.
\<close>

theorem css_precondition_counterexample:
  "lookup exOptionsNoLoaderOptions ''css'' = JObj [(''extract'', JBool True)] \<and>
   member (JObj [(''extract'', JBool True)]) ''loaderOptions'' = Inr JUndef \<and>
   runBuilder exWorld exOptionsNoLoaderOptions = Inr exOutcome"
  using ex_runBuilder_noLoaderOptions
  by (simp add: exOptionsNoLoaderOptions_def member_def)

theorem css_precondition_witness:
  "lookup exNormalized ''css'' = JUndef \<and>
   runBuilder exWorld exNormalized = Inl TypeError \<and>
   lookup (AList.update ''css'' (JObj []) exOptions) ''css'' = JObj [] \<and>
   runBuilder exWorld (AList.update ''css'' (JObj []) exOptions) = Inl TypeError"
  using css_precondition [of exWorld exNormalized TypeError]
    css_precondition [of exWorld "AList.update ''css'' (JObj []) exOptions" TypeError]
  by (simp add: exNormalized_def optMember_def member_def)

text \<open>
  C10. When \<^verbatim>\<open>setup\<close> resolves, the \<^verbatim>\<open>chainWebpack\<close> of the inline options is the
  builder's own wrapper, whatever the project configuration holds under that key. The
  wrapper applies the builder's own modifications, none of which is a call of a
  function value, and then, when the project configuration has a \<^verbatim>\<open>chainWebpack\<close>
  function, calls it once, last; when it has none, nothing is called.
\<close>

theorem chainWebpack_wrapper:
  assumes "setup_async w options log = (Resolved r, log')"
  shows "lookup (inlineOptions r) ''chainWebpack'' = JFun ChainWebpackWrapper \<and>
         (\<exists>vueConfig.
            jor (resolveVueConfig w (projectRoot r)) (JObj []) = JObj vueConfig \<and>
            (let own = [ModifyIndexHtmlPath (browserOptions r),
                        ModifyEntryPoint (browserOptions r),
                        ModifyTsConfigPaths (browserOptions r),
                        ModifyCachePaths,
                        ModifyTypescriptAliases (browserOptions r)] @
                       (if truthy (getBabelConfig w (projectRoot r))
                        then [ModifyBabelLoader (getBabelConfig w (projectRoot r))] else []) @
                       (if truthy (lookup options ''watch'') then [] else [UseVueCliPlugin])
             in (\<forall>f. Call f \<notin> set own) \<and>
                (\<forall>f. lookup vueConfig ''chainWebpack'' = JFun f \<longrightarrow>
                     applyFn w options r ChainWebpackWrapper config =
                       Inr (config @ own @ [Call f])) \<and>
                (\<not> truthy (lookup vueConfig ''chainWebpack'') \<longrightarrow>
                     applyFn w options r ChainWebpackWrapper config = Inr (config @ own))))"
proof -
  from setup_async_Resolved [OF assms] obtain vc merged where
    vc: "jor (resolveVueConfig w (projectRoot r)) (JObj []) = JObj vc" and
    merged: "merged = mergeKeys (mergeKeys (mergeKeys [] defaults) vc)
               (explicitOptions (browserOptions r) options)" and
    io: "(case configureWebpackFile w (projectRoot r) of
              None \<Rightarrow> inlineOptions r = merged \<and> log' = log
            | Some f \<Rightarrow>
                inlineOptions r = AList.update ''configureWebpack'' (JFun f) merged \<and>
                log' = log @ [deprecation])"
    by blast
  from io have "lookup (inlineOptions r) ''chainWebpack'' = lookup merged ''chainWebpack''"
    by (cases "configureWebpackFile w (projectRoot r)") simp_all
  then have a: "lookup (inlineOptions r) ''chainWebpack'' = JFun ChainWebpackWrapper"
    unfolding merged by (simp only: mergeKeys_explicit)
  define own where "own =
     [ModifyIndexHtmlPath (browserOptions r), ModifyEntryPoint (browserOptions r),
      ModifyTsConfigPaths (browserOptions r), ModifyCachePaths,
      ModifyTypescriptAliases (browserOptions r)] @
     (if truthy (getBabelConfig w (projectRoot r))
      then [ModifyBabelLoader (getBabelConfig w (projectRoot r))] else []) @
     (if truthy (lookup options ''watch'') then [] else [UseVueCliPlugin])"
  have n: "\<forall>f. Call f \<notin> set own"
    by (simp add: own_def)
  have b: "applyFn w options r ChainWebpackWrapper config = Inr (config @ own @ [Call f])"
    if "lookup vc ''chainWebpack'' = JFun f" for f
    using that by (simp add: applyFn_def vc chainWebpack_def member_def own_def)
  have c: "applyFn w options r ChainWebpackWrapper config = Inr (config @ own)"
    if "\<not> truthy (lookup vc ''chainWebpack'')"
    using that by (simp add: applyFn_def vc chainWebpack_def member_def own_def)
  from n b c have "let own' = own
     in (\<forall>f. Call f \<notin> set own') \<and>
        (\<forall>f. lookup vc ''chainWebpack'' = JFun f \<longrightarrow>
             applyFn w options r ChainWebpackWrapper config = Inr (config @ own' @ [Call f])) \<and>
        (\<not> truthy (lookup vc ''chainWebpack'') \<longrightarrow>
             applyFn w options r ChainWebpackWrapper config = Inr (config @ own'))"
    by (simp add: Let_def)
  with a vc show ?thesis
    unfolding own_def by blast
qed

theorem chainWebpack_wrapper_witness:
  "setup_async exWorld exNormalized [] = (Resolved exSetupResult, [deprecation]) \<and>
   lookup (inlineOptions exSetupResult) ''chainWebpack'' = JFun ChainWebpackWrapper \<and>
   lookup exVueConfig ''chainWebpack'' = JFun (ProjectFn 1) \<and>
   applyFn exWorld exNormalized exSetupResult ChainWebpackWrapper [] =
     Inr [ModifyIndexHtmlPath exValidated, ModifyEntryPoint exValidated,
          ModifyTsConfigPaths exValidated, ModifyCachePaths, ModifyTypescriptAliases exValidated,
          ModifyBabelLoader (JStr ''apps/demo/babel.config.js''), Call (ProjectFn 1)]"
proof -
  have s: "setup_async exWorld exNormalized [] = (Resolved exSetupResult, [deprecation])"
    using ex_setup [of "[]"] by simp
  have h: "lookup exVueConfig ''chainWebpack'' = JFun (ProjectFn 1)"
    by (simp add: exVueConfig_def)
  have v: "jor (resolveVueConfig exWorld (projectRoot exSetupResult)) (JObj []) = JObj exVueConfig"
    by (simp add: exWorld_def jor_def)
  have e: "truthy (lookup exNormalized ''watch'')"
          "getBabelConfig exWorld (projectRoot exSetupResult) = JStr ''apps/demo/babel.config.js''"
          "browserOptions exSetupResult = exValidated"
    by (simp_all add: exNormalized_def exOptions_def exWorld_def exSetupResult_def)
  from chainWebpack_wrapper [OF s, of "[]"] v h
  have "lookup (inlineOptions exSetupResult) ''chainWebpack'' = JFun ChainWebpackWrapper \<and>
        applyFn exWorld exNormalized exSetupResult ChainWebpackWrapper [] =
          Inr [ModifyIndexHtmlPath exValidated, ModifyEntryPoint exValidated,
               ModifyTsConfigPaths exValidated, ModifyCachePaths,
               ModifyTypescriptAliases exValidated,
               ModifyBabelLoader (JStr ''apps/demo/babel.config.js''), Call (ProjectFn 1)]"
    by (simp add: Let_def e)
  with s h show ?thesis by simp
qed

end
